theory Spec2Isabelle
  imports Main
begin

section \<open>Values of the JavaScript runtime\<close>

text \<open>
  A decoded JSON payload, together with \<open>undefined\<close>, which a property read can yield.
  Strings are the UTF-8 bytes of the JavaScript string (what \<open>Buffer.from\<close> produces);
  a number is carried as the text that \<open>Number.prototype.toString\<close> gives for it, which
  is all that template interpolation ever asks of a number. An object is the list of its
  own properties in insertion order.
\<close>

datatype jsval =
    JUndefined
  | JNull
  | JBool bool
  | JNum string
  | JStr string
  | JArr "jsval list"
  | JObj "(string \<times> jsval) list"

text \<open>
  What can be thrown: axios rejects on a reply whose status is outside 200..299 and on a
  transport failure (no reply at all, such as a timeout); the runtime throws a TypeError.
\<close>

datatype error =
    AxiosBadStatus nat jsval
  | AxiosNetworkError string
  | TypeError string

fun join_comma :: "string list \<Rightarrow> string" where
  "join_comma [] = []"
| "join_comma [s] = s"
| "join_comma (s # ss) = s @ '','' @ join_comma ss"

text \<open>
  \<open>ToString\<close>, as applied by a template literal \<open>`${v}`\<close>. An array is joined with
  commas, \<open>null\<close> and \<open>undefined\<close> elements printing as nothing. A plain object prints
  through \<open>Object.prototype.toString\<close>, unless an own property named \<open>toString\<close> shadows
  it: a decoded JSON value is never callable, and the conversion throws.
\<close>

fun ToString :: "jsval \<Rightarrow> error + string"
  and ToString_elems :: "jsval list \<Rightarrow> error + string list" where
  "ToString JUndefined = Inr ''undefined''"
| "ToString JNull = Inr ''null''"
| "ToString (JBool b) = Inr (if b then ''true'' else ''false'')"
| "ToString (JNum n) = Inr n"
| "ToString (JStr s) = Inr s"
| "ToString (JArr xs) =
     (case ToString_elems xs of Inl e \<Rightarrow> Inl e | Inr ss \<Rightarrow> Inr (join_comma ss))"
| "ToString (JObj kvs) =
     (if ''toString'' \<in> set (map fst kvs)
      then Inl (TypeError ''Cannot convert object to primitive value'')
      else Inr ''[object Object]'')"
| "ToString_elems [] = Inr []"
| "ToString_elems (x # xs) =
     (case (if x = JUndefined \<or> x = JNull then Inr [] else ToString x) of
        Inl e \<Rightarrow> Inl e
      | Inr s \<Rightarrow> (case ToString_elems xs of Inl e \<Rightarrow> Inl e | Inr ss \<Rightarrow> Inr (s # ss)))"

text \<open>
  The read \<open>data.access_token\<close>. It throws on \<open>null\<close> and \<open>undefined\<close>; a primitive
  or an array has no property of that name; an object gives its own property, or
  \<open>undefined\<close>.
\<close>

fun access_token :: "jsval \<Rightarrow> error + jsval" where
  "access_token JUndefined =
     Inl (TypeError ''Cannot read properties of undefined'')"
| "access_token JNull =
     Inl (TypeError ''Cannot read properties of null'')"
| "access_token (JObj kvs) =
     Inr (case map_of kvs ''access_token'' of None \<Rightarrow> JUndefined | Some v \<Rightarrow> v)"
| "access_token _ = Inr JUndefined"

section \<open>The process environment\<close>

text \<open>\<open>process.env\<close>: a variable is a string, or absent (\<open>undefined\<close>).\<close>

type_synonym env = "string \<Rightarrow> string option"

text \<open>\<open>`${process.env.X}`\<close>: an absent variable interpolates as the text \<open>undefined\<close>.\<close>

definition interpolate :: "string option \<Rightarrow> string" where
  "interpolate v = (case v of None \<Rightarrow> ''undefined'' | Some s \<Rightarrow> s)"

text \<open>\<open>process.env.X || ''\<close>: absent and empty are both falsy.\<close>

definition or_empty :: "string option \<Rightarrow> string" where
  "or_empty v = (case v of None \<Rightarrow> '''' | Some s \<Rightarrow> (if s = '''' then '''' else s))"

section \<open>Base64\<close>

text \<open>
  Modelled from the spec: \<open>Buffer.from(s).toString('base64')\<close> is the runtime's codec,
  not code of this repository; the spec calls it "standard Base64 encoding", which is
  the alphabet of RFC 4648 with \<open>=\<close> padding. The decoder is the inverse reading of
  the same format, four characters at a time.
\<close>

definition b64_alphabet :: string where
  "b64_alphabet = ''ABCDEFGHIJKLMNOPQRSTUVWXYZabcdefghijklmnopqrstuvwxyz0123456789+/''"

definition b64_char :: "nat \<Rightarrow> char" where
  "b64_char i = b64_alphabet ! i"

definition b64_value :: "char \<Rightarrow> nat option" where
  "b64_value c = map_of (zip b64_alphabet [0..<64]) c"

fun base64_encode :: "string \<Rightarrow> string" where
  "base64_encode (a # b # c # rest) =
     (let n = of_char a * 65536 + of_char b * 256 + of_char c
      in b64_char (n div 262144) # b64_char (n div 4096 mod 64) #
         b64_char (n div 64 mod 64) # b64_char (n mod 64) # base64_encode rest)"
| "base64_encode [a, b] =
     (let n = of_char a * 65536 + of_char b * 256
      in [b64_char (n div 262144), b64_char (n div 4096 mod 64),
          b64_char (n div 64 mod 64), CHR ''=''])"
| "base64_encode [a] =
     (let n = of_char a * 65536
      in [b64_char (n div 262144), b64_char (n div 4096 mod 64), CHR ''='', CHR ''=''])"
| "base64_encode [] = []"

fun base64_decode :: "string \<Rightarrow> string option" where
  "base64_decode [] = Some []"
| "base64_decode (p # q # r # s # rest) =
     (if rest = [] \<and> s = CHR ''='' then
        (if r = CHR ''='' then
           (case (b64_value p, b64_value q) of
              (Some x, Some y) \<Rightarrow> Some [char_of ((x * 64 + y) div 16)]
            | _ \<Rightarrow> None)
         else
           (case (b64_value p, b64_value q, b64_value r) of
              (Some x, Some y, Some z) \<Rightarrow>
                (let n = (x * 64 + y) * 64 + z
                 in Some [char_of (n div 1024), char_of (n div 4 mod 256)])
            | _ \<Rightarrow> None))
      else
        (case (b64_value p, b64_value q, b64_value r, b64_value s) of
           (Some x, Some y, Some z, Some w) \<Rightarrow>
             (let n = ((x * 64 + y) * 64 + z) * 64 + w
              in map_option (\<lambda>bs. char_of (n div 65536) # char_of (n div 256 mod 256) #
                                   char_of (n mod 256) # bs)
                   (base64_decode rest))
         | _ \<Rightarrow> None))"
| "base64_decode _ = None"

section \<open>Outbound HTTP through axios\<close>

datatype http_method = GET | POST

text \<open>
  What the code hands to axios: the HTTP verb, the URL, the \<open>params\<close> and \<open>headers\<close> of
  the config object, and for a POST the \<open>URLSearchParams\<close> body, an ordered list of
  pairs.
\<close>

record http_request =
  verb :: http_method
  url :: string
  params :: "(string \<times> string) list"
  headers :: "(string \<times> string) list"
  form :: "(string \<times> string) list option"

text \<open>
  What comes back from an axios call: an answer of the provider, with its status and its
  decoded body, or no answer (the transport failed or timed out, or the HTTP stack
  refused the request), with the message of the failure.
\<close>

datatype http_reply = Reply nat jsval | NoReply string

text \<open>
  The provider, with the network in front of it, is outside the program: what comes
  back may depend on the request and on every request made before it.
\<close>

type_synonym provider = "http_request list \<Rightarrow> http_request \<Rightarrow> http_reply"

record axios_response =
  status :: nat
  data :: jsval

text \<open>
  One axios call, with the defaults the code leaves in place: the request is made once
  (it is appended to the log of outbound calls), the promise resolves for a status in
  200..299 (the default \<open>validateStatus\<close>) and rejects otherwise.
\<close>

definition axios_request ::
  "provider \<Rightarrow> http_request \<Rightarrow> http_request list \<Rightarrow>
   (error + axios_response) \<times> http_request list" where
  "axios_request provider req log =
     ((case provider log req of
         NoReply m \<Rightarrow> Inl (AxiosNetworkError m)
       | Reply st d \<Rightarrow>
           (if 200 \<le> st \<and> st < 300 then Inr \<lparr>status = st, data = d\<rparr>
            else Inl (AxiosBadStatus st d))),
      log @ [req])"

definition axios_post ::
  "provider \<Rightarrow> string \<Rightarrow> (string \<times> string) list \<Rightarrow> (string \<times> string) list \<Rightarrow>
   http_request list \<Rightarrow> (error + axios_response) \<times> http_request list" where
  "axios_post provider u body hs log =
     axios_request provider
       \<lparr>verb = POST, url = u, params = [], headers = hs, form = Some body\<rparr> log"

definition axios_get ::
  "provider \<Rightarrow> string \<Rightarrow> (string \<times> string) list \<Rightarrow> (string \<times> string) list \<Rightarrow>
   http_request list \<Rightarrow> (error + axios_response) \<times> http_request list" where
  "axios_get provider u ps hs log =
     axios_request provider
       \<lparr>verb = GET, url = u, params = ps, headers = hs, form = None\<rparr> log"

section \<open>ZoomService\<close>

definition ZOOM_API_URL :: string where
  "ZOOM_API_URL = ''https://api.zoom.us/v2''"

text \<open>
  \<open>getAccessToken\<close>: builds the credentials from the environment, posts the form, and
  returns whatever \<open>tokenResponse.data.access_token\<close> is.
\<close>

definition getAccessToken ::
  "env \<Rightarrow> provider \<Rightarrow> http_request list \<Rightarrow> (error + jsval) \<times> http_request list" where
  "getAccessToken env provider log =
     (let credentials =
            interpolate (env ''ZOOM_CLIENT_ID'') @ '':'' @
            interpolate (env ''ZOOM_CLIENT_SECRET'');
          encodedCredentials = base64_encode credentials;
          body = [] @ [(''grant_type'', ''account_credentials'')]
                    @ [(''account_id'', or_empty (env ''ZOOM_ACCOUNT_ID''))]
      in case axios_post provider ''https://zoom.us/oauth/token'' body
                [(''Content-Type'', ''application/x-www-form-urlencoded''),
                 (''Authorization'', ''Basic '' @ encodedCredentials)] log of
           (Inl e, log1) \<Rightarrow> (Inl e, log1)
         | (Inr tokenResponse, log1) \<Rightarrow> (access_token (data tokenResponse), log1))"

text \<open>
  The three public operations. Each awaits the token first; a rejection there leaves
  the function at once. The config object is built next, where \<open>`Bearer ${token}`\<close>
  converts the token to a string, and then the GET is made; \<open>response.data\<close> is
  returned as it is.
\<close>

definition getUserMeetings ::
  "env \<Rightarrow> provider \<Rightarrow> string \<Rightarrow> http_request list \<Rightarrow>
   (error + jsval) \<times> http_request list" where
  "getUserMeetings env provider userId log =
     (case getAccessToken env provider log of
        (Inl e, log1) \<Rightarrow> (Inl e, log1)
      | (Inr token, log1) \<Rightarrow>
          (case ToString token of
             Inl e \<Rightarrow> (Inl e, log1)
           | Inr t \<Rightarrow>
               (case axios_get provider (ZOOM_API_URL @ ''/users/'' @ userId @ ''/meetings'')
                       [(''type'', ''past'')]
                       [(''Authorization'', ''Bearer '' @ t)] log1 of
                  (Inl e, log2) \<Rightarrow> (Inl e, log2)
                | (Inr response, log2) \<Rightarrow> (Inr (data response), log2))))"

definition getMeetingParticipants ::
  "env \<Rightarrow> provider \<Rightarrow> string \<Rightarrow> http_request list \<Rightarrow>
   (error + jsval) \<times> http_request list" where
  "getMeetingParticipants env provider meetingId log =
     (case getAccessToken env provider log of
        (Inl e, log1) \<Rightarrow> (Inl e, log1)
      | (Inr token, log1) \<Rightarrow>
          (case ToString token of
             Inl e \<Rightarrow> (Inl e, log1)
           | Inr t \<Rightarrow>
               (case axios_get provider
                       (ZOOM_API_URL @ ''/metrics/meetings/'' @ meetingId @ ''/participants'')
                       []
                       [(''Authorization'', ''Bearer '' @ t)] log1 of
                  (Inl e, log2) \<Rightarrow> (Inl e, log2)
                | (Inr response, log2) \<Rightarrow> (Inr (data response), log2))))"

definition getMeetingDetails ::
  "env \<Rightarrow> provider \<Rightarrow> string \<Rightarrow> http_request list \<Rightarrow>
   (error + jsval) \<times> http_request list" where
  "getMeetingDetails env provider meetingId log =
     (case getAccessToken env provider log of
        (Inl e, log1) \<Rightarrow> (Inl e, log1)
      | (Inr token, log1) \<Rightarrow>
          (case ToString token of
             Inl e \<Rightarrow> (Inl e, log1)
           | Inr t \<Rightarrow>
               (case axios_get provider (ZOOM_API_URL @ ''/meetings/'' @ meetingId)
                       []
                       [(''Authorization'', ''Bearer '' @ t)] log1 of
                  (Inl e, log2) \<Rightarrow> (Inl e, log2)
                | (Inr response, log2) \<Rightarrow> (Inr (data response), log2))))"

section \<open>The gateway's handlers\<close>

text \<open>
  What a handler sends back: \<open>res.json(v)\<close> is status 200 with \<open>v\<close>,
  \<open>res.status(500).json(v)\<close> is status 500 with \<open>v\<close>. A handler's result is the
  response, what it wrote with \<open>console.log\<close>, and the log of outbound calls.
\<close>

record http_response =
  statusCode :: nat
  body :: jsval

type_synonym handled = "http_response \<times> error list \<times> http_request list"

definition userMeetingsHandler ::
  "env \<Rightarrow> provider \<Rightarrow> string \<Rightarrow> http_request list \<Rightarrow> handled" where
  "userMeetingsHandler env provider userId log =
     (case getUserMeetings env provider userId log of
        (Inr meetings, log') \<Rightarrow> (\<lparr>statusCode = 200, body = meetings\<rparr>, [], log')
      | (Inl e, log') \<Rightarrow>
          (\<lparr>statusCode = 500,
            body = JObj [(''error'', JStr ''Failed to get user meetings'')]\<rparr>, [e], log'))"

definition meetingParticipantsHandler ::
  "env \<Rightarrow> provider \<Rightarrow> string \<Rightarrow> http_request list \<Rightarrow> handled" where
  "meetingParticipantsHandler env provider meetingId log =
     (case getMeetingParticipants env provider meetingId log of
        (Inr participants, log') \<Rightarrow> (\<lparr>statusCode = 200, body = participants\<rparr>, [], log')
      | (Inl e, log') \<Rightarrow>
          (\<lparr>statusCode = 500,
            body = JObj [(''error'', JStr ''Failed to get meeting participants'')]\<rparr>,
           [e], log'))"

definition meetingDetailsHandler ::
  "env \<Rightarrow> provider \<Rightarrow> string \<Rightarrow> http_request list \<Rightarrow> handled" where
  "meetingDetailsHandler env provider meetingId log =
     (case getMeetingDetails env provider meetingId log of
        (Inr meetingDetails, log') \<Rightarrow> (\<lparr>statusCode = 200, body = meetingDetails\<rparr>, [], log')
      | (Inl e, log') \<Rightarrow>
          (\<lparr>statusCode = 500,
            body = JObj [(''error'', JStr ''Failed to get meeting details'')]\<rparr>, [e], log'))"

section \<open>The specification's vocabulary\<close>

text \<open>
  The spec speaks of one relay operation over a resource kind, and of one gateway with
  three endpoints. These definitions follow its words; the operations they dispatch to
  are the source's.
\<close>

datatype resource_kind = UserMeetings | MeetingParticipants | MeetingDetails

fun relay ::
  "env \<Rightarrow> provider \<Rightarrow> resource_kind \<Rightarrow> string \<Rightarrow> http_request list \<Rightarrow>
   (error + jsval) \<times> http_request list" where
  "relay env provider UserMeetings ident log = getUserMeetings env provider ident log"
| "relay env provider MeetingParticipants ident log =
     getMeetingParticipants env provider ident log"
| "relay env provider MeetingDetails ident log = getMeetingDetails env provider ident log"

fun gateway ::
  "env \<Rightarrow> provider \<Rightarrow> resource_kind \<Rightarrow> string \<Rightarrow> http_request list \<Rightarrow> handled" where
  "gateway env provider UserMeetings ident log = userMeetingsHandler env provider ident log"
| "gateway env provider MeetingParticipants ident log =
     meetingParticipantsHandler env provider ident log"
| "gateway env provider MeetingDetails ident log =
     meetingDetailsHandler env provider ident log"

text \<open>The failure bodies of the spec's table of endpoints.\<close>

fun failure_message :: "resource_kind \<Rightarrow> string" where
  "failure_message UserMeetings = ''Failed to get user meetings''"
| "failure_message MeetingParticipants = ''Failed to get meeting participants''"
| "failure_message MeetingDetails = ''Failed to get meeting details''"

definition failure_response :: "resource_kind \<Rightarrow> http_response" where
  "failure_response kind =
     \<lparr>statusCode = 500, body = JObj [(''error'', JStr (failure_message kind))]\<rparr>"

text \<open>
  The provider-facing interface as the spec lists it: the token request, and for each
  kind the path around the identifier and the query parameters.
\<close>

definition token_request :: "env \<Rightarrow> http_request" where
  "token_request env =
     \<lparr>verb = POST,
      url = ''https://zoom.us/oauth/token'',
      params = [],
      headers =
        [(''Content-Type'', ''application/x-www-form-urlencoded''),
         (''Authorization'',
          ''Basic '' @ base64_encode (interpolate (env ''ZOOM_CLIENT_ID'') @ '':'' @
                                     interpolate (env ''ZOOM_CLIENT_SECRET'')))],
      form = Some [(''grant_type'', ''account_credentials''),
                   (''account_id'', or_empty (env ''ZOOM_ACCOUNT_ID''))]\<rparr>"

fun url_prefix :: "resource_kind \<Rightarrow> string" where
  "url_prefix UserMeetings = ''https://api.zoom.us/v2/users/''"
| "url_prefix MeetingParticipants = ''https://api.zoom.us/v2/metrics/meetings/''"
| "url_prefix MeetingDetails = ''https://api.zoom.us/v2/meetings/''"

fun url_suffix :: "resource_kind \<Rightarrow> string" where
  "url_suffix UserMeetings = ''/meetings''"
| "url_suffix MeetingParticipants = ''/participants''"
| "url_suffix MeetingDetails = ''''"

fun query_params :: "resource_kind \<Rightarrow> (string \<times> string) list" where
  "query_params UserMeetings = [(''type'', ''past'')]"
| "query_params MeetingParticipants = []"
| "query_params MeetingDetails = []"

definition resource_request :: "resource_kind \<Rightarrow> string \<Rightarrow> string \<Rightarrow> http_request" where
  "resource_request kind ident bearer =
     \<lparr>verb = GET,
      url = url_prefix kind @ ident @ url_suffix kind,
      params = query_params kind,
      headers = [(''Authorization'', ''Bearer '' @ bearer)],
      form = None\<rparr>"

section \<open>Concrete environments and providers\<close>

text \<open>
  A configured environment, one whose client secret is absent, and one where nothing is
  configured.
\<close>

definition example_env :: env where
  "example_env =
     [''ZOOM_CLIENT_ID'' \<mapsto> ''id'', ''ZOOM_CLIENT_SECRET'' \<mapsto> ''secret'',
      ''ZOOM_ACCOUNT_ID'' \<mapsto> ''acct'']"

definition env_no_secret :: env where
  "env_no_secret = [''ZOOM_CLIENT_ID'' \<mapsto> ''id'', ''ZOOM_ACCOUNT_ID'' \<mapsto> ''acct'']"

definition env_absent :: env where
  "env_absent name = None"

text \<open>The payload of the spec's scenario for \<open>userId = "u1"\<close>.\<close>

definition example_meetings :: jsval where
  "example_meetings =
     JObj [(''meetings'',
            JArr [JObj [(''id'', JStr ''m1''), (''topic'', JStr ''Standup''),
                        (''start_time'', JStr ''2024-01-01T00:00:00Z'')]])]"

text \<open>A provider that grants the token \<open>tok\<close> and serves the payload.\<close>

definition provider_ok :: provider where
  "provider_ok h r =
     (if verb r = POST then Reply 200 (JObj [(''access_token'', JStr ''tok'')])
      else Reply 200 example_meetings)"

text \<open>A provider whose token endpoint answers 401.\<close>

definition provider_401 :: provider where
  "provider_401 h r =
     (if verb r = POST then Reply 401 (JObj [(''reason'', JStr ''Invalid client_id or client_secret'')])
      else Reply 200 example_meetings)"

text \<open>A provider that grants the token and answers 404 on the resource.\<close>

definition provider_404 :: provider where
  "provider_404 h r =
     (if verb r = POST then Reply 200 (JObj [(''access_token'', JStr ''tok'')])
      else Reply 404 (JObj [(''message'', JStr ''Meeting does not exist'')]))"

text \<open>A provider that grants a different token on every exchange after the first.\<close>

definition provider_rotating :: provider where
  "provider_rotating h r =
     (if verb r = POST
      then Reply 200 (JObj [(''access_token'', JStr (if h = [] then ''first'' else ''second''))])
      else Reply 200 example_meetings)"

text \<open>A provider that never answers.\<close>

definition provider_timeout :: provider where
  "provider_timeout h r = NoReply ''ETIMEDOUT''"

text \<open>A provider whose token endpoint answers 200 with no \<open>access_token\<close> in the body.\<close>

definition provider_no_token :: provider where
  "provider_no_token h r =
     (if verb r = POST then Reply 200 (JObj [(''token_type'', JStr ''bearer'')])
      else Reply 200 example_meetings)"

section \<open>Base64: decoding inverts encoding\<close>

lemma b64_alphabet_length: "length b64_alphabet = 64"
  by (simp add: b64_alphabet_def)

lemma b64_alphabet_distinct: "distinct b64_alphabet"
  by (simp add: b64_alphabet_def)

lemma b64_value_char: "i < 64 \<Longrightarrow> b64_value (b64_char i) = Some i"
  unfolding b64_value_def b64_char_def
  using map_of_zip_nth [of b64_alphabet "[0..<64]" i]
  by (simp add: b64_alphabet_length b64_alphabet_distinct)

lemma b64_char_not_pad: "i < 64 \<Longrightarrow> b64_char i \<noteq> CHR ''=''"
proof -
  assume "i < 64"
  then have "b64_char i \<in> set b64_alphabet"
    by (simp add: b64_char_def b64_alphabet_length)
  moreover have "CHR ''='' \<notin> set b64_alphabet"
    by (simp add: b64_alphabet_def)
  ultimately show ?thesis by metis
qed

lemma of_char_lt: "of_char (c::char) < (256::nat)"
  using range_nat_of_char by auto

lemma sextets_join:
  fixes n :: nat
  shows "((n div 262144 * 64 + n div 4096 mod 64) * 64 + n div 64 mod 64) * 64 + n mod 64 = n"
proof -
  have a: "n div 262144 = n div 4096 div 64"
    by (simp add: div_mult2_eq [symmetric])
  have b: "n div 4096 = n div 64 div 64"
    by (simp add: div_mult2_eq [symmetric])
  have "n div 262144 * 64 + n div 4096 mod 64 = n div 4096"
    unfolding a by simp
  moreover have "n div 4096 * 64 + n div 64 mod 64 = n div 64"
    unfolding b by simp
  ultimately show ?thesis by simp
qed

lemma octets_split:
  fixes a b c :: nat
  assumes "a < 256" "b < 256" "c < 256"
  shows "(a * 65536 + b * 256 + c) div 262144 < 64"
    and "(a * 65536 + b * 256 + c) div 65536 = a"
    and "(a * 65536 + b * 256 + c) div 256 mod 256 = b"
    and "(a * 65536 + b * 256 + c) mod 256 = c"
proof -
  show "(a * 65536 + b * 256 + c) div 262144 < 64"
    using assms by (simp add: less_mult_imp_div_less)
  show "(a * 65536 + b * 256 + c) div 65536 = a"
    using assms by simp
  have "(a * 65536 + b * 256 + c) div 256 = a * 256 + b"
    using assms by simp
  then show "(a * 65536 + b * 256 + c) div 256 mod 256 = b"
    using assms by simp
  have "a * 65536 + b * 256 + c = (a * 256 + b) * 256 + c"
    by simp
  then show "(a * 65536 + b * 256 + c) mod 256 = c"
    using assms by (metis mod_mult_self3 mod_less)
qed


lemma decode_group3:
  assumes "b64_value p = Some x" "b64_value q = Some y" "b64_value r = Some z"
    "b64_value s = Some w" "s \<noteq> CHR ''=''"
  shows "base64_decode (p # q # r # s # rest) =
     (let n = ((x * 64 + y) * 64 + z) * 64 + w
      in map_option (\<lambda>bs. char_of (n div 65536) # char_of (n div 256 mod 256) #
                           char_of (n mod 256) # bs) (base64_decode rest))"
  using assms by simp

lemma roundtrip_group3:
  assumes IH: "base64_decode (base64_encode rest) = Some rest"
  shows "base64_decode (base64_encode (a # b # c # rest)) = Some (a # b # c # rest)"
proof -
  define n :: nat where "n = of_char a * 65536 + of_char b * 256 + of_char c"
  have lt: "of_char a < (256::nat)" "of_char b < (256::nat)" "of_char c < (256::nat)"
    by (rule of_char_lt)+
  have n1: "n div 262144 < 64"
    unfolding n_def using lt by (rule octets_split(1))
  have bytes: "n div 65536 = of_char a" "n div 256 mod 256 = of_char b" "n mod 256 = of_char c"
    unfolding n_def using lt by (simp_all only: octets_split)
  have enc: "base64_encode (a # b # c # rest) =
      b64_char (n div 262144) # b64_char (n div 4096 mod 64) #
      b64_char (n div 64 mod 64) # b64_char (n mod 64) # base64_encode rest"
    by (simp add: n_def Let_def)
  have "base64_decode (base64_encode (a # b # c # rest)) =
      (let m = ((n div 262144 * 64 + n div 4096 mod 64) * 64 + n div 64 mod 64) * 64 + n mod 64
       in map_option (\<lambda>bs. char_of (m div 65536) # char_of (m div 256 mod 256) #
                            char_of (m mod 256) # bs) (base64_decode (base64_encode rest)))"
    unfolding enc
    by (rule decode_group3) (simp_all add: b64_value_char b64_char_not_pad n1)
  also have "\<dots> = Some (a # b # c # rest)"
    by (simp only: sextets_join Let_def IH bytes option.map char_of_char)
  finally show ?thesis .
qed


lemma decode_group2:
  assumes "b64_value p = Some x" "b64_value q = Some y" "b64_value r = Some z"
    "r \<noteq> CHR ''=''"
  shows "base64_decode [p, q, r, CHR ''=''] =
     Some [char_of (((x * 64 + y) * 64 + z) div 1024),
           char_of (((x * 64 + y) * 64 + z) div 4 mod 256)]"
  using assms by (simp add: Let_def)

lemma decode_group1:
  assumes "b64_value p = Some x" "b64_value q = Some y"
  shows "base64_decode [p, q, CHR ''='', CHR ''=''] = Some [char_of ((x * 64 + y) div 16)]"
  using assms by simp

lemma sextets_join3:
  fixes n :: nat
  shows "(n div 262144 * 64 + n div 4096 mod 64) * 64 + n div 64 mod 64 = n div 64"
proof -
  have a: "n div 262144 = n div 4096 div 64"
    by (simp add: div_mult2_eq [symmetric])
  have b: "n div 4096 = n div 64 div 64"
    by (simp add: div_mult2_eq [symmetric])
  have "n div 262144 * 64 + n div 4096 mod 64 = n div 4096"
    unfolding a by simp
  moreover have "n div 4096 * 64 + n div 64 mod 64 = n div 64"
    unfolding b by simp
  ultimately show ?thesis by simp
qed

lemma sextets_join2:
  fixes n :: nat
  shows "n div 262144 * 64 + n div 4096 mod 64 = n div 4096"
proof -
  have "n div 262144 = n div 4096 div 64"
    by (simp add: div_mult2_eq [symmetric])
  then show ?thesis by simp
qed

lemma roundtrip_group2:
  "base64_decode (base64_encode [a, b]) = Some [a, b]"
proof -
  define n :: nat where "n = of_char a * 65536 + of_char b * 256 + 0"
  have lt: "of_char a < (256::nat)" "of_char b < (256::nat)" "(0::nat) < 256"
    by (simp_all add: of_char_lt)
  have n1: "n div 262144 < 64"
    unfolding n_def using lt by (rule octets_split(1))
  have bytes: "n div 65536 = of_char a" "n div 256 mod 256 = of_char b"
    unfolding n_def using lt by (simp_all only: octets_split)
  have enc: "base64_encode [a, b] =
      [b64_char (n div 262144), b64_char (n div 4096 mod 64), b64_char (n div 64 mod 64), CHR ''='']"
    by (simp add: n_def Let_def)
  have d1: "n div 64 div 1024 = n div 65536" and d2: "n div 64 div 4 = n div 256"
    by (simp_all add: div_mult2_eq [symmetric])
  have "base64_decode (base64_encode [a, b]) =
      Some [char_of (((n div 262144 * 64 + n div 4096 mod 64) * 64 + n div 64 mod 64) div 1024),
            char_of (((n div 262144 * 64 + n div 4096 mod 64) * 64 + n div 64 mod 64) div 4 mod 256)]"
    unfolding enc
    by (rule decode_group2) (simp_all add: b64_value_char b64_char_not_pad n1)
  then show ?thesis
    by (simp only: sextets_join3 d1 d2 bytes char_of_char)
qed

lemma roundtrip_group1:
  "base64_decode (base64_encode [a]) = Some [a]"
proof -
  define n :: nat where "n = of_char a * 65536 + 0 * 256 + 0"
  have lt: "of_char a < (256::nat)" "(0::nat) < 256" "(0::nat) < 256"
    by (simp_all add: of_char_lt)
  have n1: "n div 262144 < 64"
    unfolding n_def using lt by (rule octets_split(1))
  have bytes: "n div 65536 = of_char a"
    unfolding n_def using lt by (simp only: octets_split)
  have enc: "base64_encode [a] =
      [b64_char (n div 262144), b64_char (n div 4096 mod 64), CHR ''='', CHR ''='']"
    by (simp add: n_def Let_def)
  have d1: "n div 4096 div 16 = n div 65536"
    by (simp add: div_mult2_eq [symmetric])
  have "base64_decode (base64_encode [a]) =
      Some [char_of ((n div 262144 * 64 + n div 4096 mod 64) div 16)]"
    unfolding enc
    by (rule decode_group1) (simp_all add: b64_value_char n1)
  then show ?thesis
    by (simp only: sextets_join2 d1 bytes char_of_char)
qed

lemma base64_roundtrip: "base64_decode (base64_encode s) = Some s"
proof (induction s rule: base64_encode.induct)
  case (1 a b c rest)
  from 1 [OF refl] show ?case by (rule roundtrip_group3)
next
  case (2 a b)
  show ?case by (rule roundtrip_group2)
next
  case (3 a)
  show ?case by (rule roundtrip_group1)
next
  case 4
  show ?case by simp
qed

section \<open>The calls an operation makes\<close>

lemma axios_request_log: "snd (axios_request provider req log) = log @ [req]"
  by (simp add: axios_request_def)

lemma getAccessToken_eq:
  "getAccessToken env provider log =
     ((case provider log (token_request env) of
         NoReply m \<Rightarrow> Inl (AxiosNetworkError m)
       | Reply st d \<Rightarrow>
           (if 200 \<le> st \<and> st < 300 then access_token d else Inl (AxiosBadStatus st d))),
      log @ [token_request env])"
  by (cases "provider log (token_request env)")
     (simp_all add: getAccessToken_def axios_post_def axios_request_def token_request_def)

lemma getAccessToken_log: "snd (getAccessToken env provider log) = log @ [token_request env]"
  by (simp add: getAccessToken_eq)

lemma relay_eq:
  "relay env provider kind ident log =
     (case getAccessToken env provider log of
        (Inl e, log1) \<Rightarrow> (Inl e, log1)
      | (Inr token, log1) \<Rightarrow>
          (case ToString token of
             Inl e \<Rightarrow> (Inl e, log1)
           | Inr t \<Rightarrow>
               (case axios_request provider (resource_request kind ident t) log1 of
                  (Inl e, log2) \<Rightarrow> (Inl e, log2)
                | (Inr response, log2) \<Rightarrow> (Inr (data response), log2))))"
  by (cases kind)
     (simp_all add: getUserMeetings_def getMeetingParticipants_def getMeetingDetails_def
        axios_get_def resource_request_def ZOOM_API_URL_def split: prod.splits sum.splits)

lemma gateway_eq:
  "gateway env provider kind ident log =
     (case relay env provider kind ident log of
        (Inr v, log') \<Rightarrow> (\<lparr>statusCode = 200, body = v\<rparr>, [], log')
      | (Inl e, log') \<Rightarrow> (failure_response kind, [e], log'))"
  by (cases kind)
     (simp_all add: userMeetingsHandler_def meetingParticipantsHandler_def
        meetingDetailsHandler_def failure_response_def split: prod.splits sum.splits)

section \<open>What one operation sends and returns\<close>

lemma getAccessToken_pair:
  "fst (getAccessToken env provider log) = r \<Longrightarrow>
   getAccessToken env provider log = (r, log @ [token_request env])"
  using getAccessToken_log [of env provider log] by (simp add: prod_eq_iff)

lemma getAccessToken_granted:
  assumes "fst (getAccessToken env provider log) = Inr tok"
  shows "\<exists>st d. provider log (token_request env) = Reply st d \<and> 200 \<le> st \<and> st < 300 \<and>
           access_token d = Inr tok"
proof (cases "provider log (token_request env)")
  case (Reply st d)
  with assms show ?thesis
    by (cases "200 \<le> st \<and> st < 300") (simp_all add: getAccessToken_eq)
next
  case (NoReply m)
  with assms show ?thesis
    by (simp add: getAccessToken_eq)
qed

lemma relay_token_failure:
  "fst (getAccessToken env provider log) = Inl e \<Longrightarrow>
   relay env provider kind ident log = (Inl e, log @ [token_request env])"
  by (drule getAccessToken_pair) (simp add: relay_eq)

lemma relay_unprintable_token:
  "fst (getAccessToken env provider log) = Inr tok \<Longrightarrow> ToString tok = Inl e \<Longrightarrow>
   relay env provider kind ident log = (Inl e, log @ [token_request env])"
  by (drule getAccessToken_pair) (simp add: relay_eq)

lemma relay_fetch:
  "fst (getAccessToken env provider log) = Inr tok \<Longrightarrow> ToString tok = Inr t \<Longrightarrow>
   relay env provider kind ident log =
     ((case provider (log @ [token_request env]) (resource_request kind ident t) of
         NoReply m \<Rightarrow> Inl (AxiosNetworkError m)
       | Reply st d \<Rightarrow>
           (if 200 \<le> st \<and> st < 300 then Inr d else Inl (AxiosBadStatus st d))),
      log @ [token_request env, resource_request kind ident t])"
  by (drule getAccessToken_pair) (auto simp: relay_eq axios_request_def split: http_reply.splits)

lemma relay_calls:
  "snd (relay env provider kind ident log) = log @ [token_request env] \<or>
   (\<exists>tok t. fst (getAccessToken env provider log) = Inr tok \<and> ToString tok = Inr t \<and>
      snd (relay env provider kind ident log) =
        log @ [token_request env, resource_request kind ident t])"
proof (cases "fst (getAccessToken env provider log)")
  case (Inl e)
  then show ?thesis by (simp add: relay_token_failure)
next
  case (Inr tok)
  show ?thesis
  proof (cases "ToString tok")
    case (Inl e)
    with Inr show ?thesis by (simp add: relay_unprintable_token)
  next
    case t: (Inr t)
    with Inr show ?thesis by (simp add: relay_fetch)
  qed
qed

lemma relay_success_calls:
  assumes "fst (relay env provider kind ident log) = Inr v"
  shows "\<exists>t. snd (relay env provider kind ident log) =
           log @ [token_request env, resource_request kind ident t]"
proof (cases "fst (getAccessToken env provider log)")
  case (Inl e)
  then have "fst (relay env provider kind ident log) = Inl e"
    by (simp add: relay_token_failure)
  with assms show ?thesis by simp
next
  case (Inr tok)
  show ?thesis
  proof (cases "ToString tok")
    case (Inl e)
    with Inr have "fst (relay env provider kind ident log) = Inl e"
      by (simp add: relay_unprintable_token)
    with assms show ?thesis by simp
  next
    case t: (Inr t)
    with Inr show ?thesis by (auto simp: relay_fetch)
  qed
qed

section \<open>The claims of the specification\<close>

text \<open>
  Claim C1. For each of the three resource kinds and every identifier: when the token
  exchange returns a token and the provider answers the resource request with a status
  in 200..299, the relay returns the body of that answer as it is, and the gateway
  sends it with status 200.
\<close>

theorem relay_returns_provider_body:
  assumes "fst (getAccessToken env provider log) = Inr tok"
    and "ToString tok = Inr t"
    and "provider (log @ [token_request env]) (resource_request kind ident t) = Reply st d"
    and "200 \<le> st" and "st < 300"
  shows "fst (relay env provider kind ident log) = Inr d \<and>
         fst (gateway env provider kind ident log) = \<lparr>statusCode = 200, body = d\<rparr>"
proof -
  have "relay env provider kind ident log =
      (Inr d, log @ [token_request env, resource_request kind ident t])"
    using relay_fetch [OF assms(1,2), of kind ident] assms(3-5) by simp
  then show ?thesis
    by (simp add: gateway_eq)
qed

theorem relay_returns_provider_body_witness:
  "fst (relay example_env provider_ok UserMeetings ''u1'' []) = Inr example_meetings \<and>
   fst (gateway example_env provider_ok UserMeetings ''u1'' []) =
     \<lparr>statusCode = 200, body = example_meetings\<rparr>"
  using relay_returns_provider_body
    [of example_env provider_ok "[]" "JStr ''tok''" "''tok''" UserMeetings "''u1''" 200
        example_meetings]
  by (simp add: getAccessToken_eq provider_ok_def token_request_def resource_request_def)

text \<open>
  Claim C2. Every relay operation sends the token request first. If it sends anything
  after it, that is the one resource request, and its Authorization header is
  \<open>Bearer\<close> followed by the token that this operation's own exchange returned: the
  operation takes no token as input and keeps none.
\<close>

theorem token_fetched_by_each_relay:
  "\<exists>new. snd (relay env provider kind ident log) = log @ token_request env # new \<and>
     (new = [] \<or>
      (\<exists>st d tok t.
         provider log (token_request env) = Reply st d \<and> access_token d = Inr tok \<and>
         fst (getAccessToken env provider log) = Inr tok \<and> ToString tok = Inr t \<and>
         new = [resource_request kind ident t] \<and>
         headers (resource_request kind ident t) = [(''Authorization'', ''Bearer '' @ t)]))"
proof -
  from relay_calls [of env provider kind ident log]
  consider "snd (relay env provider kind ident log) = log @ [token_request env]"
    | tok t where "fst (getAccessToken env provider log) = Inr tok" "ToString tok = Inr t"
        "snd (relay env provider kind ident log) =
           log @ [token_request env, resource_request kind ident t]"
    by blast
  then show ?thesis
  proof cases
    case 1
    then show ?thesis by simp
  next
    case 2
    from getAccessToken_granted [OF 2(1)] obtain st d
      where "provider log (token_request env) = Reply st d" "access_token d = Inr tok"
      by blast
    moreover have "headers (resource_request kind ident t) = [(''Authorization'', ''Bearer '' @ t)]"
      by (simp add: resource_request_def)
    ultimately show ?thesis using 2 by auto
  qed
qed

text \<open>
  Two operations in a row against a provider that changes the token: the second one
  carries the token of its own exchange.
\<close>

theorem token_fetched_by_each_relay_witness:
  "snd (relay example_env provider_rotating MeetingDetails ''m2''
          (snd (relay example_env provider_rotating UserMeetings ''u1'' []))) =
     [token_request example_env, resource_request UserMeetings ''u1'' ''first'',
      token_request example_env, resource_request MeetingDetails ''m2'' ''second'']"
proof -
  let ?first = "[token_request example_env, resource_request UserMeetings ''u1'' ''first'']"
  have first: "snd (relay example_env provider_rotating UserMeetings ''u1'' []) = ?first"
    by (simp add: relay_eq getAccessToken_eq provider_rotating_def token_request_def
        axios_request_def)
  have len: "length (snd (relay example_env provider_rotating MeetingDetails ''m2'' ?first)) = 4"
    by (simp add: relay_eq getAccessToken_eq provider_rotating_def token_request_def
        axios_request_def)
  from token_fetched_by_each_relay [of example_env provider_rotating MeetingDetails "''m2''" ?first]
  obtain new where
    whole: "snd (relay example_env provider_rotating MeetingDetails ''m2'' ?first) =
      ?first @ token_request example_env # new"
    and bearer: "new = [] \<or>
      (\<exists>st d tok t.
         provider_rotating ?first (token_request example_env) = Reply st d \<and>
         access_token d = Inr tok \<and> ToString tok = Inr t \<and>
         new = [resource_request MeetingDetails ''m2'' t])"
    by blast
  from len whole have "new \<noteq> []"
    by auto
  with bearer obtain st d tok t where
    reply: "provider_rotating ?first (token_request example_env) = Reply st d"
    and tok: "access_token d = Inr tok" "ToString tok = Inr t"
    and new: "new = [resource_request MeetingDetails ''m2'' t]"
    by blast
  from reply have "d = JObj [(''access_token'', JStr ''second'')]"
    by (simp add: provider_rotating_def token_request_def)
  with tok have "t = ''second''"
    by auto
  with whole new show ?thesis
    unfolding first by simp
qed

text \<open>
  Claim C3. With the three values configured, the token exchange sends one POST to
  \<open>https://zoom.us/oauth/token\<close>, form-encoded, whose form holds
  \<open>grant_type=account_credentials\<close> and the configured account id, and whose
  Authorization header is \<open>Basic\<close> followed by a Base64 text that decodes to the
  client id, a colon, and the client secret.
\<close>

theorem token_request_shape:
  assumes "env ''ZOOM_CLIENT_ID'' = Some client_id"
    and "env ''ZOOM_CLIENT_SECRET'' = Some client_secret"
    and "env ''ZOOM_ACCOUNT_ID'' = Some account_id"
  shows "\<exists>b. snd (getAccessToken env provider log) =
           log @ [\<lparr>verb = POST,
                    url = ''https://zoom.us/oauth/token'',
                    params = [],
                    headers = [(''Content-Type'', ''application/x-www-form-urlencoded''),
                               (''Authorization'', ''Basic '' @ b)],
                    form = Some [(''grant_type'', ''account_credentials''),
                                 (''account_id'', account_id)]\<rparr>] \<and>
           base64_decode b = Some (client_id @ '':'' @ client_secret)"
proof -
  have "or_empty (Some account_id) = account_id"
    by (simp add: or_empty_def)
  then have "snd (getAccessToken env provider log) =
      log @ [\<lparr>verb = POST,
               url = ''https://zoom.us/oauth/token'',
               params = [],
               headers = [(''Content-Type'', ''application/x-www-form-urlencoded''),
                          (''Authorization'',
                           ''Basic '' @ base64_encode (client_id @ '':'' @ client_secret))],
               form = Some [(''grant_type'', ''account_credentials''),
                            (''account_id'', account_id)]\<rparr>]"
    using assms
    by (simp add: getAccessToken_log token_request_def interpolate_def)
  moreover have "base64_decode (base64_encode (client_id @ '':'' @ client_secret)) =
      Some (client_id @ '':'' @ client_secret)"
    by (rule base64_roundtrip)
  ultimately show ?thesis by blast
qed

theorem token_request_shape_witness:
  "example_env ''ZOOM_CLIENT_ID'' = Some ''id'' \<and>
   example_env ''ZOOM_CLIENT_SECRET'' = Some ''secret'' \<and>
   example_env ''ZOOM_ACCOUNT_ID'' = Some ''acct'' \<and>
   (\<exists>b. snd (getAccessToken example_env provider_ok []) =
           [] @ [\<lparr>verb = POST,
                    url = ''https://zoom.us/oauth/token'',
                    params = [],
                    headers = [(''Content-Type'', ''application/x-www-form-urlencoded''),
                               (''Authorization'', ''Basic '' @ b)],
                    form = Some [(''grant_type'', ''account_credentials''),
                                 (''account_id'', ''acct'')]\<rparr>] \<and>
           base64_decode b = Some (''id'' @ '':'' @ ''secret''))"
proof -
  have h: "example_env ''ZOOM_CLIENT_ID'' = Some ''id''"
    "example_env ''ZOOM_CLIENT_SECRET'' = Some ''secret''"
    "example_env ''ZOOM_ACCOUNT_ID'' = Some ''acct''"
    by (simp_all add: example_env_def)
  from token_request_shape [OF h, of provider_ok "[]"] h show ?thesis
    by blast
qed

text \<open>
  Claim C4. Once the token is obtained, \<open>getUserMeetings\<close> sends
  \<open>GET /users/{identifier}/meetings\<close> with the query parameter \<open>type=past\<close>,
  \<open>getMeetingParticipants\<close> sends \<open>GET /metrics/meetings/{identifier}/participants\<close>
  with no query parameters, \<open>getMeetingDetails\<close> sends \<open>GET /meetings/{identifier}\<close>
  with no query parameters, and each carries \<open>Authorization: Bearer {token}\<close>.
\<close>

theorem resource_request_shape:
  assumes "fst (getAccessToken env provider log) = Inr token"
    and "ToString token = Inr t"
  shows "snd (getUserMeetings env provider ident log) =
           log @ [token_request env,
                  \<lparr>verb = GET,
                   url = ''https://api.zoom.us/v2/users/'' @ ident @ ''/meetings'',
                   params = [(''type'', ''past'')],
                   headers = [(''Authorization'', ''Bearer '' @ t)],
                   form = None\<rparr>] \<and>
         snd (getMeetingParticipants env provider ident log) =
           log @ [token_request env,
                  \<lparr>verb = GET,
                   url = ''https://api.zoom.us/v2/metrics/meetings/'' @ ident @ ''/participants'',
                   params = [],
                   headers = [(''Authorization'', ''Bearer '' @ t)],
                   form = None\<rparr>] \<and>
         snd (getMeetingDetails env provider ident log) =
           log @ [token_request env,
                  \<lparr>verb = GET,
                   url = ''https://api.zoom.us/v2/meetings/'' @ ident,
                   params = [],
                   headers = [(''Authorization'', ''Bearer '' @ t)],
                   form = None\<rparr>]"
proof -
  have tok: "getAccessToken env provider log = (Inr token, log @ [token_request env])"
    using assms(1) by (rule getAccessToken_pair)
  show ?thesis
    using assms(2)
    by (simp add: getUserMeetings_def getMeetingParticipants_def getMeetingDetails_def tok
        axios_get_def axios_request_def ZOOM_API_URL_def split: sum.splits)
qed

theorem resource_request_shape_witness:
  "fst (getAccessToken example_env provider_ok []) = Inr (JStr ''tok'') \<and>
   ToString (JStr ''tok'') = Inr ''tok'' \<and>
   snd (getUserMeetings example_env provider_ok ''u1'' []) =
     [token_request example_env,
      \<lparr>verb = GET, url = ''https://api.zoom.us/v2/users/u1/meetings'',
       params = [(''type'', ''past'')], headers = [(''Authorization'', ''Bearer tok'')],
       form = None\<rparr>] \<and>
   snd (getMeetingParticipants example_env provider_ok ''u1'' []) =
     [token_request example_env,
      \<lparr>verb = GET, url = ''https://api.zoom.us/v2/metrics/meetings/u1/participants'',
       params = [], headers = [(''Authorization'', ''Bearer tok'')], form = None\<rparr>] \<and>
   snd (getMeetingDetails example_env provider_ok ''u1'' []) =
     [token_request example_env,
      \<lparr>verb = GET, url = ''https://api.zoom.us/v2/meetings/u1'',
       params = [], headers = [(''Authorization'', ''Bearer tok'')], form = None\<rparr>]"
proof -
  have h: "fst (getAccessToken example_env provider_ok []) = Inr (JStr ''tok'')"
    by (simp add: getAccessToken_eq provider_ok_def token_request_def)
  have p: "ToString (JStr ''tok'') = Inr ''tok''"
    by simp
  from resource_request_shape [OF h p, of "''u1''"] h p show ?thesis
    by simp
qed

text \<open>
  Claim C5. When the token exchange fails, the only outbound call of the request is the
  token request (no resource fetch), and the gateway answers 500 with the fixed error
  body of the endpoint that was called.
\<close>

theorem token_failure_skips_fetch:
  assumes "fst (getAccessToken env provider log) = Inl e"
  shows "gateway env provider kind ident log =
           (\<lparr>statusCode = 500, body = JObj [(''error'', JStr (failure_message kind))]\<rparr>,
            [e], log @ [token_request env])"
  using relay_token_failure [OF assms, of kind ident]
  by (simp add: gateway_eq failure_response_def)

theorem token_failure_skips_fetch_witness:
  "fst (getAccessToken example_env provider_401 []) =
     Inl (AxiosBadStatus 401 (JObj [(''reason'', JStr ''Invalid client_id or client_secret'')])) \<and>
   gateway example_env provider_401 MeetingDetails ''m1'' [] =
     (\<lparr>statusCode = 500, body = JObj [(''error'', JStr ''Failed to get meeting details'')]\<rparr>,
      [AxiosBadStatus 401 (JObj [(''reason'', JStr ''Invalid client_id or client_secret'')])],
      [token_request example_env])"
proof -
  have h: "fst (getAccessToken example_env provider_401 []) =
      Inl (AxiosBadStatus 401 (JObj [(''reason'', JStr ''Invalid client_id or client_secret'')]))"
    by (simp add: getAccessToken_eq provider_401_def token_request_def)
  from token_failure_skips_fetch [OF h, of MeetingDetails "''m1''"] h show ?thesis
    by simp
qed

text \<open>
  Claim C6. Whatever makes the relay operation fail, at the token exchange or at the
  resource fetch, the endpoint answers 500 with its own fixed message; the error goes
  to the console and no part of it is in the response.
\<close>

theorem failure_response_is_static:
  assumes "fst (relay env provider kind ident log) = Inl e"
  shows "fst (gateway env provider kind ident log) =
           \<lparr>statusCode = 500, body = JObj [(''error'', JStr (failure_message kind))]\<rparr> \<and>
         fst (snd (gateway env provider kind ident log)) = [e]"
  using assms
  by (cases "relay env provider kind ident log") (simp add: gateway_eq failure_response_def)

theorem failure_response_is_static_witness:
  "(fst (relay example_env provider_401 UserMeetings ''u1'' []) =
      Inl (AxiosBadStatus 401 (JObj [(''reason'', JStr ''Invalid client_id or client_secret'')])) \<and>
    fst (gateway example_env provider_401 UserMeetings ''u1'' []) =
      \<lparr>statusCode = 500, body = JObj [(''error'', JStr ''Failed to get user meetings'')]\<rparr>) \<and>
   (fst (relay example_env provider_404 UserMeetings ''u1'' []) =
      Inl (AxiosBadStatus 404 (JObj [(''message'', JStr ''Meeting does not exist'')])) \<and>
    fst (gateway example_env provider_404 UserMeetings ''u1'' []) =
      \<lparr>statusCode = 500, body = JObj [(''error'', JStr ''Failed to get user meetings'')]\<rparr>) \<and>
   (fst (relay example_env provider_timeout MeetingParticipants ''m1'' []) =
      Inl (AxiosNetworkError ''ETIMEDOUT'') \<and>
    fst (gateway example_env provider_timeout MeetingParticipants ''m1'' []) =
      \<lparr>statusCode = 500,
       body = JObj [(''error'', JStr ''Failed to get meeting participants'')]\<rparr>)"
proof -
  have a: "fst (relay example_env provider_401 UserMeetings ''u1'' []) =
      Inl (AxiosBadStatus 401 (JObj [(''reason'', JStr ''Invalid client_id or client_secret'')]))"
    by (simp add: relay_eq getAccessToken_eq provider_401_def token_request_def)
  have b: "fst (relay example_env provider_404 UserMeetings ''u1'' []) =
      Inl (AxiosBadStatus 404 (JObj [(''message'', JStr ''Meeting does not exist'')]))"
    by (simp add: relay_eq getAccessToken_eq provider_404_def token_request_def
        axios_request_def resource_request_def)
  have c: "fst (relay example_env provider_timeout MeetingParticipants ''m1'' []) =
      Inl (AxiosNetworkError ''ETIMEDOUT'')"
    by (simp add: relay_eq getAccessToken_eq provider_timeout_def)
  from failure_response_is_static [OF a] failure_response_is_static [OF b]
    failure_response_is_static [OF c] a b c
  show ?thesis by simp
qed

text \<open>
  Claim C7, as stated, fails: a 200 answer whose body has no \<open>access_token\<close> is not
  an error of the exchange, which returns \<open>undefined\<close> as the token.
\<close>

theorem missing_access_token_is_returned:
  "provider_no_token [] (token_request example_env) =
     Reply 200 (JObj [(''token_type'', JStr ''bearer'')]) \<and>
   getAccessToken example_env provider_no_token [] =
     (Inr JUndefined, [token_request example_env]) \<and>
   snd (getMeetingDetails example_env provider_no_token ''m1'' []) =
     [token_request example_env,
      \<lparr>verb = GET, url = ''https://api.zoom.us/v2/meetings/m1'', params = [],
       headers = [(''Authorization'', ''Bearer undefined'')], form = None\<rparr>]"
  by (simp add: getMeetingDetails_def getAccessToken_eq provider_no_token_def
      token_request_def axios_get_def axios_request_def ZOOM_API_URL_def)

text \<open>
  Claim C7, amended. A transport failure and an answer outside 200..299 are surfaced
  as an error, with no token returned; a 2xx answer whose body is an object is not
  checked, and the exchange returns its \<open>access_token\<close> property, \<open>undefined\<close>
  when the field is missing. In every case exactly one token request is sent.
\<close>

theorem token_exchange_outcomes:
  "(provider log (token_request env) = NoReply m \<longrightarrow>
      getAccessToken env provider log =
        (Inl (AxiosNetworkError m), log @ [token_request env])) \<and>
   (provider log (token_request env) = Reply st d \<and> \<not> (200 \<le> st \<and> st < 300) \<longrightarrow>
      getAccessToken env provider log =
        (Inl (AxiosBadStatus st d), log @ [token_request env])) \<and>
   (provider log (token_request env) = Reply st (JObj kvs) \<and> 200 \<le> st \<and> st < 300 \<longrightarrow>
      getAccessToken env provider log =
        (Inr (case map_of kvs ''access_token'' of None \<Rightarrow> JUndefined | Some v \<Rightarrow> v),
         log @ [token_request env]))"
  by (simp add: getAccessToken_eq)

theorem token_exchange_outcomes_witness:
  "(provider_timeout [] (token_request example_env) = NoReply ''ETIMEDOUT'' \<and>
    getAccessToken example_env provider_timeout [] =
      (Inl (AxiosNetworkError ''ETIMEDOUT''), [token_request example_env])) \<and>
   (provider_401 [] (token_request example_env) =
      Reply 401 (JObj [(''reason'', JStr ''Invalid client_id or client_secret'')]) \<and>
    \<not> (200 \<le> (401::nat) \<and> (401::nat) < 300) \<and>
    getAccessToken example_env provider_401 [] =
      (Inl (AxiosBadStatus 401 (JObj [(''reason'', JStr ''Invalid client_id or client_secret'')])),
       [token_request example_env])) \<and>
   (provider_no_token [] (token_request example_env) =
      Reply 200 (JObj [(''token_type'', JStr ''bearer'')]) \<and>
    getAccessToken example_env provider_no_token [] =
      (Inr JUndefined, [token_request example_env]))"
proof -
  have a: "provider_timeout [] (token_request example_env) = NoReply ''ETIMEDOUT''"
    by (simp add: provider_timeout_def)
  have b: "provider_401 [] (token_request example_env) =
      Reply 401 (JObj [(''reason'', JStr ''Invalid client_id or client_secret'')])"
    by (simp add: provider_401_def token_request_def)
  have c: "provider_no_token [] (token_request example_env) =
      Reply 200 (JObj [(''token_type'', JStr ''bearer'')])"
    by (simp add: provider_no_token_def token_request_def)
  from token_exchange_outcomes [of provider_timeout "[]" example_env "''ETIMEDOUT''"]
    token_exchange_outcomes [of provider_401 "[]" example_env _ 401
      "JObj [(''reason'', JStr ''Invalid client_id or client_secret'')]"]
    token_exchange_outcomes [of provider_no_token "[]" example_env _ 200 _
      "[(''token_type'', JStr ''bearer'')]"]
    a b c
  show ?thesis by simp
qed

text \<open>
  Claim C8, as stated, fails: with all three values absent, a provider that accepts the
  token request lets the relay succeed, so the failure the claim promises is not the
  code's doing.
\<close>

theorem absent_config_relay_succeeds:
  "env_absent ''ZOOM_CLIENT_ID'' = None \<and>
   env_absent ''ZOOM_CLIENT_SECRET'' = None \<and>
   env_absent ''ZOOM_ACCOUNT_ID'' = None \<and>
   getUserMeetings env_absent provider_ok ''u1'' [] =
     (Inr example_meetings,
      [token_request env_absent,
       \<lparr>verb = GET, url = ''https://api.zoom.us/v2/users/u1/meetings'',
        params = [(''type'', ''past'')], headers = [(''Authorization'', ''Bearer tok'')],
        form = None\<rparr>]) \<and>
   fst (userMeetingsHandler env_absent provider_ok ''u1'' []) =
     \<lparr>statusCode = 200, body = example_meetings\<rparr>"
  by (simp add: userMeetingsHandler_def getUserMeetings_def getAccessToken_eq env_absent_def
      provider_ok_def token_request_def axios_get_def axios_request_def ZOOM_API_URL_def)

text \<open>
  Claim C8, amended. Nothing is validated locally, whatever is absent: the token
  request is always the first outbound call, an absent client id or client secret goes
  into the Basic credentials as the text \<open>undefined\<close>, and an absent account id is
  sent as the empty string. Whether the relay then fails is the provider's decision:
  when the provider answers the token request with a status outside 200..299, the relay
  fails with that error, the token request being its only outbound call.
\<close>

theorem absent_config_not_validated:
  "(\<exists>rest. snd (relay env provider kind ident log) = log @ token_request env # rest) \<and>
   (env ''ZOOM_CLIENT_ID'' = None \<longrightarrow>
      (\<exists>b. map_of (headers (token_request env)) ''Authorization'' = Some (''Basic '' @ b) \<and>
           base64_decode b =
             Some (''undefined:'' @
                   (case env ''ZOOM_CLIENT_SECRET'' of None \<Rightarrow> ''undefined'' | Some v \<Rightarrow> v)))) \<and>
   (env ''ZOOM_CLIENT_SECRET'' = None \<longrightarrow>
      (\<exists>b. map_of (headers (token_request env)) ''Authorization'' = Some (''Basic '' @ b) \<and>
           base64_decode b =
             Some ((case env ''ZOOM_CLIENT_ID'' of None \<Rightarrow> ''undefined'' | Some v \<Rightarrow> v) @
                   '':undefined''))) \<and>
   (env ''ZOOM_ACCOUNT_ID'' = None \<longrightarrow>
      form (token_request env) =
        Some [(''grant_type'', ''account_credentials''), (''account_id'', '''')]) \<and>
   (\<forall>st d. provider log (token_request env) = Reply st d \<and> \<not> (200 \<le> st \<and> st < 300) \<longrightarrow>
      relay env provider kind ident log =
        (Inl (AxiosBadStatus st d), log @ [token_request env]))"
proof (intro conjI impI)
  show "\<exists>rest. snd (relay env provider kind ident log) = log @ token_request env # rest"
    using relay_calls [of env provider kind ident log] by auto
next
  assume "env ''ZOOM_CLIENT_ID'' = None"
  then show "\<exists>b. map_of (headers (token_request env)) ''Authorization'' = Some (''Basic '' @ b) \<and>
      base64_decode b =
        Some (''undefined:'' @
              (case env ''ZOOM_CLIENT_SECRET'' of None \<Rightarrow> ''undefined'' | Some v \<Rightarrow> v))"
    using base64_roundtrip
      [of "interpolate (env ''ZOOM_CLIENT_ID'') @ '':'' @ interpolate (env ''ZOOM_CLIENT_SECRET'')"]
    by (simp add: token_request_def interpolate_def)
next
  assume "env ''ZOOM_CLIENT_SECRET'' = None"
  then show "\<exists>b. map_of (headers (token_request env)) ''Authorization'' = Some (''Basic '' @ b) \<and>
      base64_decode b =
        Some ((case env ''ZOOM_CLIENT_ID'' of None \<Rightarrow> ''undefined'' | Some v \<Rightarrow> v) @
              '':undefined'')"
    using base64_roundtrip
      [of "interpolate (env ''ZOOM_CLIENT_ID'') @ '':'' @ interpolate (env ''ZOOM_CLIENT_SECRET'')"]
    by (simp add: token_request_def interpolate_def)
next
  assume "env ''ZOOM_ACCOUNT_ID'' = None"
  then show "form (token_request env) =
      Some [(''grant_type'', ''account_credentials''), (''account_id'', '''')]"
    by (simp add: token_request_def or_empty_def)
next
  show "\<forall>st d. provider log (token_request env) = Reply st d \<and> \<not> (200 \<le> st \<and> st < 300) \<longrightarrow>
      relay env provider kind ident log = (Inl (AxiosBadStatus st d), log @ [token_request env])"
  proof (intro allI impI)
    fix st d
    assume "provider log (token_request env) = Reply st d \<and> \<not> (200 \<le> st \<and> st < 300)"
    then have "fst (getAccessToken env provider log) = Inl (AxiosBadStatus st d)"
      by (auto simp: getAccessToken_eq)
    then show "relay env provider kind ident log =
        (Inl (AxiosBadStatus st d), log @ [token_request env])"
      by (rule relay_token_failure)
  qed
qed

theorem absent_config_not_validated_witness:
  "env_absent ''ZOOM_CLIENT_ID'' = None \<and>
   env_absent ''ZOOM_CLIENT_SECRET'' = None \<and>
   env_absent ''ZOOM_ACCOUNT_ID'' = None \<and>
   provider_401 [] (token_request env_absent) =
     Reply 401 (JObj [(''reason'', JStr ''Invalid client_id or client_secret'')]) \<and>
   \<not> (200 \<le> (401::nat) \<and> (401::nat) < 300) \<and>
   (\<exists>b. map_of (headers (token_request env_absent)) ''Authorization'' = Some (''Basic '' @ b) \<and>
        base64_decode b = Some ''undefined:undefined'') \<and>
   form (token_request env_absent) =
     Some [(''grant_type'', ''account_credentials''), (''account_id'', '''')] \<and>
   relay env_absent provider_401 MeetingParticipants ''m1'' [] =
     (Inl (AxiosBadStatus 401 (JObj [(''reason'', JStr ''Invalid client_id or client_secret'')])),
      [token_request env_absent]) \<and>
   (env_no_secret ''ZOOM_CLIENT_SECRET'' = None \<and>
    (\<exists>b. map_of (headers (token_request env_no_secret)) ''Authorization'' =
           Some (''Basic '' @ b) \<and>
         base64_decode b = Some ''id:undefined''))"
proof -
  have absent: "env_absent ''ZOOM_CLIENT_ID'' = None" "env_absent ''ZOOM_CLIENT_SECRET'' = None"
    "env_absent ''ZOOM_ACCOUNT_ID'' = None"
    by (simp_all add: env_absent_def)
  have p: "provider_401 [] (token_request env_absent) =
      Reply 401 (JObj [(''reason'', JStr ''Invalid client_id or client_secret'')])"
    by (simp add: provider_401_def token_request_def)
  have s: "env_no_secret ''ZOOM_CLIENT_SECRET'' = None"
    "env_no_secret ''ZOOM_CLIENT_ID'' = Some ''id''"
    by (simp_all add: env_no_secret_def)
  from absent_config_not_validated [of env_absent provider_401 MeetingParticipants "''m1''" "[]"]
    absent_config_not_validated [of env_no_secret provider_401 MeetingParticipants "''m1''" "[]"]
    absent p s
  show ?thesis by simp
qed

text \<open>
  Claim C9. A relay operation sends the token request (a POST) and at most one
  resource request (a GET) after it, each once; it sends both when it succeeds, and a
  failed token exchange ends the operation with the token request alone.
\<close>

theorem relay_outbound_calls:
  "\<exists>new. snd (relay env provider kind ident log) = log @ new \<and>
     (new = [token_request env] \<or>
      (\<exists>t. new = [token_request env, resource_request kind ident t])) \<and>
     verb (token_request env) = POST \<and>
     url (token_request env) = ''https://zoom.us/oauth/token'' \<and>
     (\<forall>t. verb (resource_request kind ident t) = GET \<and>
          url (resource_request kind ident t) = url_prefix kind @ ident @ url_suffix kind) \<and>
     (\<forall>v. fst (relay env provider kind ident log) = Inr v \<longrightarrow> length new = 2) \<and>
     (\<forall>e. fst (getAccessToken env provider log) = Inl e \<longrightarrow>
        fst (relay env provider kind ident log) = Inl e \<and> new = [token_request env])"
proof -
  define new where "new = drop (length log) (snd (relay env provider kind ident log))"
  have calls: "new = [token_request env] \<or>
      (\<exists>t. new = [token_request env, resource_request kind ident t])"
    unfolding new_def using relay_calls [of env provider kind ident log] by auto
  then have whole: "snd (relay env provider kind ident log) = log @ new"
    unfolding new_def using relay_calls [of env provider kind ident log] by auto
  have two: "\<forall>v. fst (relay env provider kind ident log) = Inr v \<longrightarrow> length new = 2"
    unfolding new_def using relay_success_calls [of env provider kind ident log] by auto
  have abort: "\<forall>e. fst (getAccessToken env provider log) = Inl e \<longrightarrow>
      fst (relay env provider kind ident log) = Inl e \<and> new = [token_request env]"
    unfolding new_def by (simp add: relay_token_failure)
  have "verb (token_request env) = POST"
    and "url (token_request env) = ''https://zoom.us/oauth/token''"
    by (simp_all add: token_request_def)
  moreover have "\<forall>t. verb (resource_request kind ident t) = GET \<and>
      url (resource_request kind ident t) = url_prefix kind @ ident @ url_suffix kind"
    by (simp add: resource_request_def)
  ultimately show ?thesis
    using whole calls two abort by blast
qed

theorem relay_outbound_calls_witness:
  "(fst (relay example_env provider_ok UserMeetings ''u1'' []) = Inr example_meetings \<and>
    length (snd (relay example_env provider_ok UserMeetings ''u1'' [])) = 2) \<and>
   (fst (getAccessToken example_env provider_401 []) =
      Inl (AxiosBadStatus 401 (JObj [(''reason'', JStr ''Invalid client_id or client_secret'')])) \<and>
    snd (relay example_env provider_401 UserMeetings ''u1'' []) = [token_request example_env])"
proof -
  have a: "fst (relay example_env provider_ok UserMeetings ''u1'' []) = Inr example_meetings"
    by (simp add: relay_eq getAccessToken_eq provider_ok_def token_request_def
        axios_request_def resource_request_def)
  have b: "fst (getAccessToken example_env provider_401 []) =
      Inl (AxiosBadStatus 401 (JObj [(''reason'', JStr ''Invalid client_id or client_secret'')]))"
    by (simp add: getAccessToken_eq provider_401_def token_request_def)
  from relay_outbound_calls [of example_env provider_ok UserMeetings "''u1''" "[]"] a
  have "length (snd (relay example_env provider_ok UserMeetings ''u1'' [])) = 2"
    by auto
  moreover
  from relay_outbound_calls [of example_env provider_401 UserMeetings "''u1''" "[]"] b
  have "snd (relay example_env provider_401 UserMeetings ''u1'' []) = [token_request example_env]"
    by auto
  ultimately show ?thesis using a b by simp
qed

text \<open>
  Claim C10. The identifier is placed in the URL as it is: for every string, the
  empty one and those with \<open>/\<close>, \<open>?\<close> or \<open>#\<close> included, the URL of the resource
  request is the prefix of the kind, the identifier, and the suffix of the kind.
\<close>

theorem identifier_spliced_verbatim:
  assumes "fst (getAccessToken env provider log) = Inr token"
    and "ToString token = Inr t"
  shows "\<exists>r. snd (relay env provider kind s log) = log @ [token_request env, r] \<and>
           verb r = GET \<and>
           url r = url_prefix kind @ s @ url_suffix kind"
  using relay_fetch [OF assms, of kind s]
  by (simp add: resource_request_def)

theorem identifier_spliced_verbatim_witness:
  "fst (getAccessToken example_env provider_ok []) = Inr (JStr ''tok'') \<and>
   ToString (JStr ''tok'') = Inr ''tok'' \<and>
   (\<exists>r. snd (relay example_env provider_ok MeetingDetails ''m1/registrants?x=1#f'' []) =
          [token_request example_env, r] \<and>
        verb r = GET \<and>
        url r = ''https://api.zoom.us/v2/meetings/m1/registrants?x=1#f'') \<and>
   (\<exists>r. snd (relay example_env provider_ok UserMeetings '''' []) =
          [token_request example_env, r] \<and>
        verb r = GET \<and>
        url r = ''https://api.zoom.us/v2/users//meetings'')"
proof -
  have h: "fst (getAccessToken example_env provider_ok []) = Inr (JStr ''tok'')"
    by (simp add: getAccessToken_eq provider_ok_def token_request_def)
  have p: "ToString (JStr ''tok'') = Inr ''tok''"
    by simp
  from identifier_spliced_verbatim [OF h p, of MeetingDetails "''m1/registrants?x=1#f''"]
    identifier_spliced_verbatim [OF h p, of UserMeetings "''''"] h p
  show ?thesis by simp
qed

end
